theory Spec2Isabelle
  imports Complex_Main "HOL-Library.Word"
begin

section \<open>Python values that reach the workspace\<close>

text \<open>
  The upper-body packet is whatever \<^verbatim>\<open>json.loads\<close> returns: \<^verbatim>\<open>None\<close>, a bool, an
  unbounded int, a float, a str, a list or a dict with str keys. The carrier \<open>'f\<close> of
  Python floats is left open: the code only uses the literal \<^verbatim>\<open>0.0\<close>, the float
  \<^verbatim>\<open>1.0\<close> that \<^verbatim>\<open>float(True)\<close> gives, and subtraction, so every definition below is
  stated for any type with \<open>0\<close>, \<open>1\<close> and \<open>-\<close>. A str value is the list of its code
  points (what \<^verbatim>\<open>len\<close> counts); a dict is an association list in insertion order, its
  keys (only ever compared for equality) as \<open>string\<close>, each key occurring once as in
  a Python dict.
\<close>

type_synonym pystr = "nat list"

datatype 'f pyval =
    PNone
  | PBool bool
  | PInt int
  | PFloat 'f
  | PStr pystr
  | PList "'f pyval list"
  | PDict "(string \<times> 'f pyval) list"

datatype exn =
    AttributeError
  | TypeError
  | ValueError
  | OverflowError
  | UnicodeDecodeError string
  | JSONDecodeError string
  | OtherException string

text \<open>Truth value testing, as \<^verbatim>\<open>not x\<close> and \<^verbatim>\<open>x or y\<close> use it.\<close>

fun truthy :: "('f::zero) pyval \<Rightarrow> bool" where
  "truthy PNone = False"
| "truthy (PBool b) = b"
| "truthy (PInt i) = (i \<noteq> 0)"
| "truthy (PFloat x) = (x \<noteq> 0)"
| "truthy (PStr s) = (s \<noteq> [])"
| "truthy (PList xs) = (xs \<noteq> [])"
| "truthy (PDict kvs) = (kvs \<noteq> [])"

definition py_or :: "('f::zero) pyval \<Rightarrow> 'f pyval \<Rightarrow> 'f pyval" where
  "py_or a b = (if truthy a then a else b)"

text \<open>\<^verbatim>\<open>x.get(key, default)\<close>: only a dict has the method.\<close>

fun py_get :: "'f pyval \<Rightarrow> string \<Rightarrow> 'f pyval \<Rightarrow> exn + 'f pyval" where
  "py_get (PDict kvs) k d = Inr (case map_of kvs k of None \<Rightarrow> d | Some v \<Rightarrow> v)"
| "py_get PNone k d = Inl AttributeError"
| "py_get (PBool b) k d = Inl AttributeError"
| "py_get (PInt i) k d = Inl AttributeError"
| "py_get (PFloat x) k d = Inl AttributeError"
| "py_get (PStr s) k d = Inl AttributeError"
| "py_get (PList xs) k d = Inl AttributeError"

text \<open>\<^verbatim>\<open>len(x)\<close>: defined on str, list and dict, a TypeError on the rest.\<close>

fun py_len :: "'f pyval \<Rightarrow> exn + nat" where
  "py_len (PStr s) = Inr (length s)"
| "py_len (PList xs) = Inr (length xs)"
| "py_len (PDict kvs) = Inr (length kvs)"
| "py_len PNone = Inl TypeError"
| "py_len (PBool b) = Inl TypeError"
| "py_len (PInt i) = Inl TypeError"
| "py_len (PFloat x) = Inl TypeError"

text \<open>
  The built-in \<^verbatim>\<open>float\<close>. What it does on a float, a bool, \<^verbatim>\<open>None\<close>, a list and a
  dict is written out. Its rounding of an int (OverflowError when the int is too large)
  and its parsing of a str (ValueError when the text is no number) belong to the Python
  runtime and are parameters: \<open>of_pyint i = None\<close> and \<open>of_pystr s = None\<close> stand for
  the raise.
\<close>

record 'f float_builtin =
  of_pyint :: "int \<Rightarrow> 'f option"
  of_pystr :: "pystr \<Rightarrow> 'f option"

fun py_float :: "('f::{zero,one}) float_builtin \<Rightarrow> 'f pyval \<Rightarrow> exn + 'f" where
  "py_float fl (PFloat x) = Inr x"
| "py_float fl (PBool b) = Inr (if b then 1 else 0)"
| "py_float fl (PInt i) = (case of_pyint fl i of None \<Rightarrow> Inl OverflowError | Some x \<Rightarrow> Inr x)"
| "py_float fl (PStr s) = (case of_pystr fl s of None \<Rightarrow> Inl ValueError | Some x \<Rightarrow> Inr x)"
| "py_float fl PNone = Inl TypeError"
| "py_float fl (PList xs) = Inl TypeError"
| "py_float fl (PDict kvs) = Inl TypeError"

section \<open>Snapshot types and the workspace state\<close>

type_synonym addr = "string \<times> int"

record 'f PoseSnapshot =
  timestamp :: 'f
  landmarks :: "(string \<times> (string \<times> 'f) list) list"

text \<open>
  \<open>latest_upper_body\<close> holds a Python value, \<open>PNone\<close> being the \<^verbatim>\<open>None\<close> of
  \<^verbatim>\<open>__init__\<close>. \<open>mp_frame_idx\<close> is the attribute \<^verbatim>\<open>_mp_frame_idx\<close>, which does not
  exist (\<open>None\<close>) until \<^verbatim>\<open>update_lower_body\<close> creates it.
\<close>

record 'f FusionWorkspace =
  latest_upper_body :: "'f pyval"
  latest_lower_body :: "'f PoseSnapshot option"
  mp_frame_idx :: "int option"

definition FusionWorkspace_init :: "'f FusionWorkspace" where
  "FusionWorkspace_init =
     \<lparr>latest_upper_body = PNone, latest_lower_body = None, mp_frame_idx = None\<rparr>"

text \<open>
  Every call of the module's logger is one event carrying the arguments of the call.
  A logging call returns normally whatever its arguments are: a message that cannot be
  formatted is reported by the logging package itself and not raised to the caller.
\<close>

datatype 'f log_event =
    QuestPacketInfo addr "'f pyval" nat
  | SnapshotInfo 'f nat
  | KeypointInfo nat string 'f 'f 'f 'f
  | NoLandmarksInfo 'f
  | FusionReadyInfo 'f 'f 'f
  | DecodeWarning addr exn

text \<open>
  What a call leaves behind: the state after it (also when it raised), the log events it
  emitted in order, and the exception that left it, if any.
\<close>

record ('s, 'f) effect =
  state :: 's
  logs :: "'f log_event list"
  raised :: "exn option"

section \<open>FusionWorkspace\<close>

text \<open>
  \<^verbatim>\<open>_log_workspace_state\<close>: returns at once unless both fields are truthy (a
  \<^verbatim>\<open>PoseSnapshot\<close> instance always is); otherwise reads the Quest timestamp inside
  \<^verbatim>\<open>try ... except Exception\<close> and logs the difference.
\<close>

definition quest_ts :: "('f::{zero,one}) float_builtin \<Rightarrow> 'f pyval \<Rightarrow> 'f" where
  "quest_ts fl body =
     (case py_get body ''timestamp'' (PFloat 0) of
        Inl e \<Rightarrow> 0
      | Inr v \<Rightarrow> (case py_float fl v of Inl e \<Rightarrow> 0 | Inr x \<Rightarrow> x))"

definition log_workspace_state ::
  "('f::{zero,one,minus}) float_builtin \<Rightarrow> 'f FusionWorkspace \<Rightarrow> 'f log_event list" where
  "log_workspace_state fl self =
     (if \<not> truthy (latest_upper_body self) then []
      else
        (case latest_lower_body self of
           None \<Rightarrow> []
         | Some lower \<Rightarrow>
             (let q = quest_ts fl (latest_upper_body self);
                  pose_estimation_by_camera_ts = timestamp lower;
                  delta = pose_estimation_by_camera_ts - q
              in [FusionReadyInfo q pose_estimation_by_camera_ts delta])))"

definition handle_quest_packet ::
  "('f::{zero,one,minus}) float_builtin \<Rightarrow> 'f FusionWorkspace \<Rightarrow> 'f pyval \<Rightarrow> addr
     \<Rightarrow> ('f FusionWorkspace, 'f) effect" where
  "handle_quest_packet fl self packet a =
     (let self1 = self\<lparr>latest_upper_body := packet\<rparr> in
      case py_get packet ''timestamp'' PNone of
        Inl e \<Rightarrow> \<lparr>state = self1, logs = [], raised = Some e\<rparr>
      | Inr ts \<Rightarrow>
          (case py_get packet ''joints'' (PList []) of
             Inl e \<Rightarrow> \<lparr>state = self1, logs = [], raised = Some e\<rparr>
           | Inr joints \<Rightarrow>
               (case py_len (py_or joints (PList [])) of
                  Inl e \<Rightarrow> \<lparr>state = self1, logs = [], raised = Some e\<rparr>
                | Inr joint_count \<Rightarrow>
                    \<lparr>state = self1,
                     logs = QuestPacketInfo a ts joint_count # log_workspace_state fl self1,
                     raised = None\<rparr>)))"

text \<open>\<^verbatim>\<open>lm.get(key, 0.0)\<close> on one landmark's mapping.\<close>

definition lm_get :: "(string \<times> ('f::zero)) list \<Rightarrow> string \<Rightarrow> 'f" where
  "lm_get lm k = (case map_of lm k of None \<Rightarrow> 0 | Some v \<Rightarrow> v)"

fun keypoint_logs :: "nat \<Rightarrow> (string \<times> (string \<times> ('f::zero)) list) list \<Rightarrow> 'f log_event list" where
  "keypoint_logs idx [] = []"
| "keypoint_logs idx ((name, lm) # rest) =
     KeypointInfo idx name (lm_get lm ''x'') (lm_get lm ''y'') (lm_get lm ''z'')
       (lm_get lm ''visibility'')
     # keypoint_logs (Suc idx) rest"

definition update_lower_body ::
  "('f::{zero,one,minus}) float_builtin \<Rightarrow> 'f FusionWorkspace \<Rightarrow> 'f PoseSnapshot
     \<Rightarrow> ('f FusionWorkspace, 'f) effect" where
  "update_lower_body fl self snapshot =
     (let self1 = self\<lparr>latest_lower_body := Some snapshot\<rparr>;
          idx = (case mp_frame_idx self1 of Some n \<Rightarrow> n + 1 | None \<Rightarrow> 1);
          self2 = self1\<lparr>mp_frame_idx := Some idx\<rparr>;
          diag =
            (if idx mod 60 = 0 then
               (if landmarks snapshot \<noteq> [] then
                  SnapshotInfo (timestamp snapshot) (length (landmarks snapshot))
                  # keypoint_logs 1 (landmarks snapshot)
                else [NoLandmarksInfo (timestamp snapshot)])
             else [])
      in \<lparr>state = self2, logs = diag @ log_workspace_state fl self2, raised = None\<rparr>)"

section \<open>The packet listener\<close>

text \<open>
  \<^verbatim>\<open>PosePacketProtocol.datagram_received\<close>. The library call
  \<^verbatim>\<open>json.loads(data.decode("utf-8"))\<close> is the parameter \<open>loads\<close>: it gives the
  parsed value or the exception it raised. The \<^verbatim>\<open>except\<close> clause catches the two
  decoding classes only; any other exception leaves the method. The handler is a
  parameter as in the constructor, acting on a state of its own.
\<close>

fun is_decode_error :: "exn \<Rightarrow> bool" where
  "is_decode_error (UnicodeDecodeError m) = True"
| "is_decode_error (JSONDecodeError m) = True"
| "is_decode_error AttributeError = False"
| "is_decode_error TypeError = False"
| "is_decode_error ValueError = False"
| "is_decode_error OverflowError = False"
| "is_decode_error (OtherException m) = False"

definition datagram_received ::
  "(8 word list \<Rightarrow> exn + 'f pyval) \<Rightarrow> ('f pyval \<Rightarrow> addr \<Rightarrow> 's \<Rightarrow> ('s, 'f) effect)
     \<Rightarrow> 8 word list \<Rightarrow> addr \<Rightarrow> 's \<Rightarrow> ('s, 'f) effect" where
  "datagram_received loads handler data a s =
     (case loads data of
        Inl exc \<Rightarrow>
          if is_decode_error exc then \<lparr>state = s, logs = [DecodeWarning a exc], raised = None\<rparr>
          else \<lparr>state = s, logs = [], raised = Some exc\<rparr>
      | Inr payload \<Rightarrow> handler payload a s)"

text \<open>The workspace method bound as the listener's handler.\<close>

definition quest_handler ::
  "('f::{zero,one,minus}) float_builtin \<Rightarrow> 'f pyval \<Rightarrow> addr \<Rightarrow> 'f FusionWorkspace
     \<Rightarrow> ('f FusionWorkspace, 'f) effect" where
  "quest_handler fl payload a self = handle_quest_packet fl self payload a"

section \<open>Sequences of calls and what is observed of them\<close>

text \<open>
  The two update methods are called in some order by the listener and by the camera
  loops. \<open>run_calls\<close> runs such a sequence on the workspace: the state a call leaves is
  the state the next call starts from, whether or not the call raised (the first
  statement of each method is the assignment, and the caller of a callback that raised
  goes on to the next one). \<open>most_recent_upper\<close> and \<open>most_recent_lower\<close> are the
  arguments of the last call of each kind in the sequence, read off the sequence alone.
\<close>

datatype 'f call = UpdateUpper "'f pyval" addr | UpdateLower "'f PoseSnapshot"

fun apply_call ::
  "('f::{zero,one,minus}) float_builtin \<Rightarrow> 'f FusionWorkspace \<Rightarrow> 'f call \<Rightarrow> 'f FusionWorkspace" where
  "apply_call fl self (UpdateUpper packet a) = state (handle_quest_packet fl self packet a)"
| "apply_call fl self (UpdateLower snapshot) = state (update_lower_body fl self snapshot)"

definition run_calls ::
  "('f::{zero,one,minus}) float_builtin \<Rightarrow> 'f FusionWorkspace \<Rightarrow> 'f call list \<Rightarrow> 'f FusionWorkspace" where
  "run_calls fl self cs = foldl (apply_call fl) self cs"

fun most_recent_upper :: "'f call list \<Rightarrow> 'f pyval option" where
  "most_recent_upper [] = None"
| "most_recent_upper (UpdateUpper packet a # cs) =
     (case most_recent_upper cs of None \<Rightarrow> Some packet | Some later \<Rightarrow> Some later)"
| "most_recent_upper (UpdateLower snapshot # cs) = most_recent_upper cs"

fun most_recent_lower :: "'f call list \<Rightarrow> 'f PoseSnapshot option" where
  "most_recent_lower [] = None"
| "most_recent_lower (UpdateLower snapshot # cs) =
     (case most_recent_lower cs of None \<Rightarrow> Some snapshot | Some later \<Rightarrow> Some later)"
| "most_recent_lower (UpdateUpper packet a # cs) = most_recent_lower cs"

text \<open>
  The synchronization observations among the log events of a call, the landmark
  diagnostic of \<^verbatim>\<open>update_lower_body\<close>, and the call counter, which reads as 0 while
  the attribute does not exist yet.
\<close>

fun delta_of :: "'f log_event \<Rightarrow> 'f option" where
  "delta_of (FusionReadyInfo q c d) = Some d"
| "delta_of (QuestPacketInfo a ts n) = None"
| "delta_of (SnapshotInfo ts n) = None"
| "delta_of (KeypointInfo i name x y z v) = None"
| "delta_of (NoLandmarksInfo ts) = None"
| "delta_of (DecodeWarning a e) = None"

definition sync_deltas :: "'f log_event list \<Rightarrow> 'f list" where
  "sync_deltas evs = List.map_filter delta_of evs"

fun is_landmark_diag :: "'f log_event \<Rightarrow> bool" where
  "is_landmark_diag (SnapshotInfo ts n) = True"
| "is_landmark_diag (KeypointInfo i name x y z v) = True"
| "is_landmark_diag (NoLandmarksInfo ts) = True"
| "is_landmark_diag (QuestPacketInfo a ts n) = False"
| "is_landmark_diag (FusionReadyInfo q c d) = False"
| "is_landmark_diag (DecodeWarning a e) = False"

definition emits_landmark_diag :: "'f log_event list \<Rightarrow> bool" where
  "emits_landmark_diag evs = list_ex is_landmark_diag evs"

definition counter :: "'f FusionWorkspace \<Rightarrow> int" where
  "counter self = (case mp_frame_idx self of None \<Rightarrow> 0 | Some n \<Rightarrow> n)"

text \<open>
  A handler that only records its invocations, to count how often and with what
  arguments the listener calls the handler it was given.
\<close>

definition recording_handler ::
  "'f pyval \<Rightarrow> addr \<Rightarrow> ('f pyval \<times> addr) list \<Rightarrow> (('f pyval \<times> addr) list, 'f) effect" where
  "recording_handler payload a calls = \<lparr>state = calls @ [(payload, a)], logs = [], raised = None\<rparr>"

text \<open>
  Concrete inputs for evaluation. \<open>loads_sample\<close> is a fragment of the decoding:
  the texts \<^verbatim>\<open>{}\<close>, \<^verbatim>\<open>{"joints":5}\<close> and \<^verbatim>\<open>7\<close>, the single byte FF (not UTF-8), the
  datagram of 2000 opening brackets (bytes 5B: no JSON text, and nested deeper than the
  parser recurses, so that \<^verbatim>\<open>json.loads\<close> raises \<^verbatim>\<open>RecursionError\<close>, which is not a
  \<^verbatim>\<open>JSONDecodeError\<close>), and a JSON syntax error standing for every other datagram. \<open>float_sample\<close> is one possible
  behaviour of the two runtime conversions, over the reals: it converts the ints below
  2 ^ 53 in absolute value (a double holds them exactly), refuses the larger ones (which
  the runtime would round) and converts the text \<^verbatim>\<open>10.5\<close> (code points 49, 48, 46, 53). The
  theorems below hold for every \<open>loads\<close> and every \<open>float_builtin\<close>; the samples only
  serve the evaluations at concrete inputs, where 10.0, 10.25, 10.5 and 0.25 are
  the reals those floats denote exactly.
\<close>

definition loads_sample :: "8 word list \<Rightarrow> exn + real pyval" where
  "loads_sample data =
     (if data = [0x7B, 0x7D] then Inr (PDict [])
      else if data = [0x7B, 0x22, 0x6A, 0x6F, 0x69, 0x6E, 0x74, 0x73, 0x22, 0x3A, 0x35, 0x7D]
        then Inr (PDict [(''joints'', PInt 5)])
      else if data = [0x37] then Inr (PInt 7)
      else if data = [0xFF] then Inl (UnicodeDecodeError ''invalid start byte'')
      else if data = replicate 2000 0x5B then Inl (OtherException ''RecursionError'')
      else Inl (JSONDecodeError ''Expecting value''))"

definition float_sample :: "real float_builtin" where
  "float_sample =
     \<lparr>of_pyint = (\<lambda>i. if \<bar>i\<bar> < 2 ^ 53 then Some (of_int i) else None),
      of_pystr = (\<lambda>s. if s = [49, 48, 46, 53] then Some 10.5 else None)\<rparr>"

section \<open>Facts about the methods\<close>

lemma handle_quest_packet_state:
  "state (handle_quest_packet fl self packet a) = self\<lparr>latest_upper_body := packet\<rparr>"
  by (simp add: handle_quest_packet_def Let_def split: sum.splits)

lemma update_lower_body_state:
  "state (update_lower_body fl self snapshot) =
     self\<lparr>latest_lower_body := Some snapshot,
          mp_frame_idx := Some (case mp_frame_idx self of Some n \<Rightarrow> n + 1 | None \<Rightarrow> 1)\<rparr>"
  by (simp add: update_lower_body_def Let_def)

lemma update_lower_body_raised: "raised (update_lower_body fl self snapshot) = None"
  by (simp add: update_lower_body_def Let_def)

lemma logs_handle_quest_packet_raised:
  "raised (handle_quest_packet fl self packet a) = Some e \<Longrightarrow>
   logs (handle_quest_packet fl self packet a) = []"
  by (auto simp: handle_quest_packet_def Let_def split: sum.splits)

lemma handle_quest_packet_unsized_joints:
  "map_of kvs ''joints'' = Some j \<Longrightarrow> truthy j \<Longrightarrow> py_len j = Inl e \<Longrightarrow>
   raised (handle_quest_packet fl self (PDict kvs) a) = Some e"
  by (simp add: handle_quest_packet_def py_or_def)


lemma datagram_received_parsed:
  "loads data = Inr payload \<Longrightarrow> datagram_received loads handler data a s = handler payload a s"
  by (simp add: datagram_received_def)

lemma apply_call_upper:
  "latest_upper_body (apply_call fl self c) =
     (case c of UpdateUpper packet a \<Rightarrow> packet | UpdateLower snapshot \<Rightarrow> latest_upper_body self)"
  by (cases c) (simp_all add: handle_quest_packet_state update_lower_body_state)

lemma apply_call_lower:
  "latest_lower_body (apply_call fl self c) =
     (case c of UpdateUpper packet a \<Rightarrow> latest_lower_body self | UpdateLower snapshot \<Rightarrow> Some snapshot)"
  by (cases c) (simp_all add: handle_quest_packet_state update_lower_body_state)

lemma run_calls_upper:
  "latest_upper_body (foldl (apply_call fl) self cs) =
     (case most_recent_upper cs of None \<Rightarrow> latest_upper_body self | Some p \<Rightarrow> p)"
proof (induction cs arbitrary: self)
  case Nil
  show ?case by simp
next
  case (Cons c cs)
  show ?case
    by (cases c) (simp_all add: Cons.IH apply_call_upper del: apply_call.simps split: option.splits)
qed

lemma run_calls_lower:
  "latest_lower_body (foldl (apply_call fl) self cs) =
     (case most_recent_lower cs of None \<Rightarrow> latest_lower_body self | Some s \<Rightarrow> Some s)"
proof (induction cs arbitrary: self)
  case Nil
  show ?case by simp
next
  case (Cons c cs)
  show ?case
    by (cases c) (simp_all add: Cons.IH apply_call_lower del: apply_call.simps split: option.splits)
qed

lemma quest_ts_dict:
  "quest_ts fl (PDict kvs) =
     (case map_of kvs ''timestamp'' of
        None \<Rightarrow> 0
      | Some v \<Rightarrow> (case py_float fl v of Inl e \<Rightarrow> 0 | Inr x \<Rightarrow> x))"
  by (simp add: quest_ts_def split: option.splits)

lemma sync_deltas_log_workspace_state:
  "sync_deltas (log_workspace_state fl self) =
     (if truthy (latest_upper_body self) then
        (case latest_lower_body self of
           None \<Rightarrow> []
         | Some lower \<Rightarrow> [timestamp lower - quest_ts fl (latest_upper_body self)])
      else [])"
  by (simp add: log_workspace_state_def sync_deltas_def List.map_filter_simps Let_def
      split: option.splits)

lemma sync_deltas_keypoint_logs: "sync_deltas (keypoint_logs i lms) = []"
  by (induction i lms rule: keypoint_logs.induct) (simp_all add: sync_deltas_def List.map_filter_simps)

lemma sync_deltas_append: "sync_deltas (xs @ ys) = sync_deltas xs @ sync_deltas ys"
  by (simp add: sync_deltas_def List.map_filter_def)

lemma sync_deltas_update_lower_body:
  "sync_deltas (logs (update_lower_body fl self snapshot)) =
     sync_deltas (log_workspace_state fl (state (update_lower_body fl self snapshot)))"
proof -
  have diag: "sync_deltas
      (if idx mod 60 = 0 then
         (if landmarks snapshot \<noteq> [] then
            SnapshotInfo (timestamp snapshot) (length (landmarks snapshot))
            # keypoint_logs 1 (landmarks snapshot)
          else [NoLandmarksInfo (timestamp snapshot)])
       else []) = []" for idx :: int
    using sync_deltas_keypoint_logs [of 1 "landmarks snapshot"]
    by (simp add: sync_deltas_def List.map_filter_simps)
  show ?thesis
    unfolding update_lower_body_def Let_def
    by (simp add: sync_deltas_append diag)
qed

lemma sync_deltas_handle_quest_packet:
  "raised (handle_quest_packet fl self packet a) = None \<Longrightarrow>
   sync_deltas (logs (handle_quest_packet fl self packet a)) =
     sync_deltas (log_workspace_state fl (state (handle_quest_packet fl self packet a)))"
  by (auto simp: handle_quest_packet_def Let_def sync_deltas_def List.map_filter_simps
      split: sum.splits)

lemma sync_deltas_handle_quest_packet_raised:
  "raised (handle_quest_packet fl self packet a) = Some e \<Longrightarrow>
   sync_deltas (logs (handle_quest_packet fl self packet a)) = []"
  by (simp add: logs_handle_quest_packet_raised sync_deltas_def List.map_filter_simps)

lemma counter_apply_lower:
  "counter (state (update_lower_body fl self snapshot)) = counter self + 1"
  by (simp add: update_lower_body_state counter_def split: option.splits)

lemma counter_run_lower:
  "counter (foldl (apply_call fl) self (map UpdateLower snaps)) = counter self + int (length snaps)"
  by (induction snaps arbitrary: self) (simp_all add: counter_apply_lower)

lemma landmark_diag_log_workspace_state:
  "\<not> list_ex is_landmark_diag (log_workspace_state fl self)"
  by (simp add: log_workspace_state_def Let_def split: option.splits)

lemma emits_landmark_diag_update_lower_body:
  "emits_landmark_diag (logs (update_lower_body fl self snapshot)) =
     ((counter self + 1) mod 60 = 0)"
  by (simp add: update_lower_body_def emits_landmark_diag_def counter_def Let_def
      landmark_diag_log_workspace_state split: option.splits)

lemma handle_quest_packet_completes:
  "map_of kvs ''joints'' = None
     \<or> (\<exists>j. map_of kvs ''joints'' = Some j \<and> (\<not> truthy j \<or> (\<exists>n. py_len j = Inr n))) \<Longrightarrow>
   raised (handle_quest_packet fl self (PDict kvs) a) = None"
  by (auto simp: handle_quest_packet_def py_or_def Let_def)

section \<open>The packet listener dispatches and drops\<close>

text \<open>
  Claim C1. For every datagram that decodes and parses, the listener's effect is exactly
  that of one invocation of the registered handler on the parsed payload and the sender
  address: for any handler the two effects are equal, and a recording handler ends with
  exactly one new entry, the pair of payload and address. When the handler is the
  workspace's \<^verbatim>\<open>handle_quest_packet\<close>, \<open>latest_upper_body\<close> read afterwards is the
  parsed payload itself (also when the method raised after storing it).
\<close>

theorem C1_valid_datagram_dispatched:
  assumes "loads data = Inr payload"
  shows "datagram_received loads handler data a s = handler payload a s
       \<and> state (datagram_received loads recording_handler data a calls) = calls @ [(payload, a)]
       \<and> latest_upper_body (state (datagram_received loads (quest_handler fl) data a self)) = payload"
  using assms
  by (simp add: datagram_received_parsed recording_handler_def quest_handler_def
      handle_quest_packet_state)

theorem C1_valid_datagram_dispatched_witness:
  "loads_sample [0x7B, 0x22, 0x6A, 0x6F, 0x69, 0x6E, 0x74, 0x73, 0x22, 0x3A, 0x35, 0x7D]
     = Inr (PDict [(''joints'', PInt 5)])
   \<and> state (datagram_received loads_sample recording_handler
        [0x7B, 0x22, 0x6A, 0x6F, 0x69, 0x6E, 0x74, 0x73, 0x22, 0x3A, 0x35, 0x7D]
        (''10.0.0.7'', 9000) [])
       = [(PDict [(''joints'', PInt 5)], (''10.0.0.7'', 9000))]
   \<and> latest_upper_body (state (datagram_received loads_sample (quest_handler float_sample)
        [0x7B, 0x22, 0x6A, 0x6F, 0x69, 0x6E, 0x74, 0x73, 0x22, 0x3A, 0x35, 0x7D]
        (''10.0.0.7'', 9000) FusionWorkspace_init))
       = PDict [(''joints'', PInt 5)]"
proof -
  have h: "loads_sample [0x7B, 0x22, 0x6A, 0x6F, 0x69, 0x6E, 0x74, 0x73, 0x22, 0x3A, 0x35, 0x7D]
      = Inr (PDict [(''joints'', PInt 5)])"
    by (simp add: loads_sample_def)
  from h C1_valid_datagram_dispatched [where loads = loads_sample and handler = recording_handler
      and data = "[0x7B, 0x22, 0x6A, 0x6F, 0x69, 0x6E, 0x74, 0x73, 0x22, 0x3A, 0x35, 0x7D]"
      and payload = "PDict [(''joints'', PInt 5)]"
      and a = "(''10.0.0.7'', 9000)" and s = "[]" and calls = "[]" and fl = float_sample
      and self = FusionWorkspace_init]
  show ?thesis by (simp add: recording_handler_def)
qed




section \<open>Last write wins, per source\<close>

text \<open>
  Claim C2. After any sequence of \<^verbatim>\<open>handle_quest_packet\<close> and
  \<^verbatim>\<open>update_lower_body\<close> calls on a fresh workspace, \<open>latest_upper_body\<close> is the
  packet of the most recent upper-body call (\<^verbatim>\<open>None\<close> if there was none) and
  \<open>latest_lower_body\<close> is the snapshot of the most recent lower-body call (absent if
  there was none), whatever timestamps the payloads carry; and each call leaves the
  other source's field as it was.
\<close>

theorem C2_last_write_wins:
  "latest_upper_body (run_calls fl FusionWorkspace_init cs) =
     (case most_recent_upper cs of None \<Rightarrow> PNone | Some packet \<Rightarrow> packet)
   \<and> latest_lower_body (run_calls fl FusionWorkspace_init cs) = most_recent_lower cs
   \<and> latest_lower_body (state (handle_quest_packet fl self packet a)) = latest_lower_body self
   \<and> latest_upper_body (state (update_lower_body fl self snapshot)) = latest_upper_body self"
  by (simp add: run_calls_def run_calls_upper run_calls_lower FusionWorkspace_init_def
      handle_quest_packet_state update_lower_body_state split: option.splits)

theorem C2_last_write_wins_witness:
  "latest_upper_body (run_calls float_sample FusionWorkspace_init
      [UpdateUpper (PDict [(''timestamp'', PFloat 20)]) (''10.0.0.7'', 9000),
       UpdateLower \<lparr>timestamp = 5, landmarks = []\<rparr>,
       UpdateUpper (PDict [(''timestamp'', PFloat 10)]) (''10.0.0.7'', 9000)])
     = PDict [(''timestamp'', PFloat 10)]
   \<and> latest_lower_body (run_calls float_sample FusionWorkspace_init
      [UpdateUpper (PDict [(''timestamp'', PFloat 20)]) (''10.0.0.7'', 9000),
       UpdateLower \<lparr>timestamp = 5, landmarks = []\<rparr>,
       UpdateUpper (PDict [(''timestamp'', PFloat 10)]) (''10.0.0.7'', 9000)])
     = Some \<lparr>timestamp = 5, landmarks = []\<rparr>"
  using C2_last_write_wins [of float_sample
      "[UpdateUpper (PDict [(''timestamp'', PFloat 20)]) (''10.0.0.7'', 9000),
        UpdateLower \<lparr>timestamp = 5, landmarks = []\<rparr>,
        UpdateUpper (PDict [(''timestamp'', PFloat 10)]) (''10.0.0.7'', 9000)]"
      FusionWorkspace_init PNone "(''10.0.0.7'', 9000)" "\<lparr>timestamp = 5, landmarks = []\<rparr>"]
  by simp

text \<open>
  Claim C7. A snapshot stored by \<^verbatim>\<open>update_lower_body\<close> is what
  \<open>latest_lower_body\<close> holds afterwards: the same timestamp and the same landmark
  mapping, entry for entry; the call does not raise.
\<close>

theorem C7_lower_body_roundtrip:
  "latest_lower_body (state (update_lower_body fl self snapshot)) = Some snapshot
   \<and> map_option timestamp (latest_lower_body (state (update_lower_body fl self snapshot)))
       = Some (timestamp snapshot)
   \<and> map_option landmarks (latest_lower_body (state (update_lower_body fl self snapshot)))
       = Some (landmarks snapshot)
   \<and> raised (update_lower_body fl self snapshot) = None"
  by (simp add: update_lower_body_state update_lower_body_raised)

theorem C7_lower_body_roundtrip_witness:
  "latest_lower_body (state (update_lower_body float_sample FusionWorkspace_init
      \<lparr>timestamp = 10.25,
       landmarks = [(''nose'', [(''x'', 1), (''y'', 2), (''z'', 3), (''confidence'', 0.9)])]\<rparr>))
     = Some \<lparr>timestamp = 10.25,
       landmarks = [(''nose'', [(''x'', 1), (''y'', 2), (''z'', 3), (''confidence'', 0.9)])]\<rparr>"
  using C7_lower_body_roundtrip [of float_sample FusionWorkspace_init
      "\<lparr>timestamp = 10.25,
        landmarks = [(''nose'', [(''x'', 1), (''y'', 2), (''z'', 3), (''confidence'', 0.9)])]\<rparr>"]
  by simp

text \<open>
  Claim C9. \<^verbatim>\<open>handle_quest_packet\<close> assigns the packet before it reads any of its
  fields: whenever the call raises, \<open>latest_upper_body\<close> already holds the new packet,
  the lower-body field is untouched and nothing has been logged. A packet whose
  \<^verbatim>\<open>joints\<close> value is truthy and has no length is such a case: the call raises the
  error of \<^verbatim>\<open>len\<close> and the packet is stored all the same.
\<close>

theorem C9_state_changed_before_raise:
  "(raised (handle_quest_packet fl self packet a) = Some e \<longrightarrow>
      latest_upper_body (state (handle_quest_packet fl self packet a)) = packet
      \<and> latest_lower_body (state (handle_quest_packet fl self packet a)) = latest_lower_body self
      \<and> logs (handle_quest_packet fl self packet a) = [])
   \<and> (map_of kvs ''joints'' = Some j \<and> truthy j \<and> py_len j = Inl e' \<longrightarrow>
      raised (handle_quest_packet fl self (PDict kvs) a) = Some e'
      \<and> latest_upper_body (state (handle_quest_packet fl self (PDict kvs) a)) = PDict kvs)"
  by (simp add: handle_quest_packet_state logs_handle_quest_packet_raised
      handle_quest_packet_unsized_joints)

theorem C9_state_changed_before_raise_witness:
  "raised (handle_quest_packet float_sample FusionWorkspace_init
      (PDict [(''joints'', PInt 5)]) (''10.0.0.7'', 9000)) = Some TypeError
   \<and> latest_upper_body (FusionWorkspace_init :: real FusionWorkspace) = PNone
   \<and> latest_upper_body (state (handle_quest_packet float_sample FusionWorkspace_init
      (PDict [(''joints'', PInt 5)]) (''10.0.0.7'', 9000))) = PDict [(''joints'', PInt 5)]"
proof -
  have h: "map_of [(''joints'', PInt 5 :: real pyval)] ''joints'' = Some (PInt 5)
      \<and> truthy (PInt 5 :: real pyval) \<and> py_len (PInt 5 :: real pyval) = Inl TypeError"
    by simp
  from C9_state_changed_before_raise [where fl = float_sample and self = FusionWorkspace_init
      and kvs = "[(''joints'', PInt 5)]" and j = "PInt 5" and e' = TypeError
      and a = "(''10.0.0.7'', 9000)"] h
  show ?thesis by (simp add: FusionWorkspace_init_def)
qed

text \<open>
  Claim C6 says that \<^verbatim>\<open>handle_quest_packet\<close> never raises on a JSON object. The
  code evaluated on the object \<^verbatim>\<open>{"joints": 5}\<close>: the value of \<^verbatim>\<open>joints\<close> is truthy,
  so \<^verbatim>\<open>or []\<close> keeps it, and \<^verbatim>\<open>len\<close> of an int raises TypeError, which leaves the
  method.
\<close>

theorem C6_unsized_joints_raise:
  "raised (handle_quest_packet fl self (PDict [(''joints'', PInt 5)]) a) = Some TypeError"
  by (simp add: handle_quest_packet_def py_or_def)

theorem C6_unsized_joints_raise_witness:
  "raised (handle_quest_packet float_sample FusionWorkspace_init
      (PDict [(''joints'', PInt 5)]) (''10.0.0.7'', 9000)) = Some TypeError"
  using C6_unsized_joints_raise [of float_sample FusionWorkspace_init "(''10.0.0.7'', 9000)"] .

section \<open>The synchronization delta\<close>

text \<open>
  Claim C3 as stated fails on the empty JSON object. With a lower-body snapshot stored,
  \<^verbatim>\<open>handle_quest_packet\<close> on the packet \<^verbatim>\<open>{}\<close> completes without raising and both
  fields are then present (the upper one holds \<^verbatim>\<open>{}\<close>, which is not \<^verbatim>\<open>None\<close>), yet
  the only event logged is the packet summary and no synchronization observation is
  emitted: the guard of \<^verbatim>\<open>_log_workspace_state\<close> tests truth values, and an empty
  dict is false.
\<close>

theorem C3_empty_packet_no_delta:
  "raised (handle_quest_packet float_sample
      (state (update_lower_body float_sample FusionWorkspace_init
         \<lparr>timestamp = 10.25, landmarks = []\<rparr>))
      (PDict []) (''10.0.0.7'', 9000)) = None
   \<and> latest_upper_body (state (handle_quest_packet float_sample
      (state (update_lower_body float_sample FusionWorkspace_init
         \<lparr>timestamp = 10.25, landmarks = []\<rparr>))
      (PDict []) (''10.0.0.7'', 9000))) = PDict []
   \<and> latest_lower_body (state (handle_quest_packet float_sample
      (state (update_lower_body float_sample FusionWorkspace_init
         \<lparr>timestamp = 10.25, landmarks = []\<rparr>))
      (PDict []) (''10.0.0.7'', 9000))) = Some \<lparr>timestamp = 10.25, landmarks = []\<rparr>
   \<and> logs (handle_quest_packet float_sample
      (state (update_lower_body float_sample FusionWorkspace_init
         \<lparr>timestamp = 10.25, landmarks = []\<rparr>))
      (PDict []) (''10.0.0.7'', 9000)) = [QuestPacketInfo (''10.0.0.7'', 9000) PNone 0]
   \<and> sync_deltas (logs (handle_quest_packet float_sample
      (state (update_lower_body float_sample FusionWorkspace_init
         \<lparr>timestamp = 10.25, landmarks = []\<rparr>))
      (PDict []) (''10.0.0.7'', 9000))) = []
   \<and> PDict [] \<noteq> (PNone :: real pyval)"
  by (simp add: handle_quest_packet_def update_lower_body_def log_workspace_state_def
      FusionWorkspace_init_def py_or_def Let_def sync_deltas_def List.map_filter_simps)

text \<open>
  Claim C3, amended. After either update completes, if \<open>latest_upper_body\<close> is truthy
  (present and not an empty or otherwise false value) and \<open>latest_lower_body\<close> is
  present, the call emits exactly one synchronization observation, whose value is the
  lower-body timestamp minus the upper-body timestamp; if \<open>latest_upper_body\<close> is
  absent or false, or \<open>latest_lower_body\<close> is absent, it emits none. The upper-body
  timestamp is read defensively: it is 0.0 when the key is absent or when \<^verbatim>\<open>float\<close>
  rejects the value, and the number itself when the value is a float. In particular a
  stored upper-body timestamp of 10.0 and a snapshot timestamp of 10.25 give the delta
  0.25.
\<close>

theorem C3_sync_delta_when_both_truthy:
  fixes fl :: "('f::{zero,one,minus}) float_builtin" and rfl :: "real float_builtin"
    and self :: "'f FusionWorkspace" and packet :: "'f pyval" and a :: addr
    and snapshot :: "'f PoseSnapshot"
  defines "up \<equiv> handle_quest_packet fl self packet a"
      and "low \<equiv> update_lower_body fl self snapshot"
  shows
   "(raised up = None \<and> truthy (latest_upper_body (state up))
       \<and> latest_lower_body (state up) = Some lower \<longrightarrow>
       sync_deltas (logs up) = [timestamp lower - quest_ts fl (latest_upper_body (state up))])
    \<and> (truthy (latest_upper_body (state low)) \<and> latest_lower_body (state low) = Some lower \<longrightarrow>
       sync_deltas (logs low) = [timestamp lower - quest_ts fl (latest_upper_body (state low))])
    \<and> (\<not> truthy (latest_upper_body (state up)) \<or> latest_lower_body (state up) = None \<longrightarrow>
       sync_deltas (logs up) = [])
    \<and> (\<not> truthy (latest_upper_body (state low)) \<or> latest_lower_body (state low) = None \<longrightarrow>
       sync_deltas (logs low) = [])
    \<and> (map_of kvs ''timestamp'' = None \<longrightarrow> quest_ts fl (PDict kvs) = 0)
    \<and> (map_of kvs ''timestamp'' = Some v \<and> py_float fl v = Inl e \<longrightarrow> quest_ts fl (PDict kvs) = 0)
    \<and> (map_of kvs ''timestamp'' = Some (PFloat x) \<longrightarrow> quest_ts fl (PDict kvs) = x)
    \<and> (latest_upper_body rself = PDict rkvs \<and> map_of rkvs ''timestamp'' = Some (PFloat 10.0) \<longrightarrow>
         sync_deltas (logs (update_lower_body rfl rself \<lparr>timestamp = 10.25, landmarks = lms\<rparr>)) = [0.25])"
proof -
  have up_some: "sync_deltas (logs up) = [timestamp lower - quest_ts fl (latest_upper_body (state up))]"
    if "raised up = None" "truthy (latest_upper_body (state up))"
       "latest_lower_body (state up) = Some lower"
    using that unfolding up_def
    by (simp add: sync_deltas_handle_quest_packet sync_deltas_log_workspace_state)
  have low_some: "sync_deltas (logs low) = [timestamp lower - quest_ts fl (latest_upper_body (state low))]"
    if "truthy (latest_upper_body (state low))" "latest_lower_body (state low) = Some lower"
    using that unfolding low_def
    by (simp add: sync_deltas_update_lower_body sync_deltas_log_workspace_state)
  have up_none: "sync_deltas (logs up) = []"
    if "\<not> truthy (latest_upper_body (state up)) \<or> latest_lower_body (state up) = None"
  proof (cases "raised up")
    case None
    with that show ?thesis unfolding up_def
      by (auto simp: sync_deltas_handle_quest_packet sync_deltas_log_workspace_state)
  next
    case (Some e)
    then show ?thesis unfolding up_def by (rule sync_deltas_handle_quest_packet_raised)
  qed
  have low_none: "sync_deltas (logs low) = []"
    if "\<not> truthy (latest_upper_body (state low)) \<or> latest_lower_body (state low) = None"
    using that unfolding low_def
    by (auto simp: sync_deltas_update_lower_body sync_deltas_log_workspace_state)
  have absent: "quest_ts fl (PDict kvs) = 0" if "map_of kvs ''timestamp'' = None"
    using that by (simp add: quest_ts_dict)
  have refused: "quest_ts fl (PDict kvs) = 0"
    if "map_of kvs ''timestamp'' = Some v \<and> py_float fl v = Inl e"
    using that by (simp add: quest_ts_dict)
  have number: "quest_ts fl (PDict kvs) = x" if "map_of kvs ''timestamp'' = Some (PFloat x)"
    using that by (simp add: quest_ts_dict)
  have example:
    "sync_deltas (logs (update_lower_body rfl rself \<lparr>timestamp = 10.25, landmarks = lms\<rparr>)) = [0.25]"
    if h: "latest_upper_body rself = PDict rkvs \<and> map_of rkvs ''timestamp'' = Some (PFloat 10.0)"
  proof -
    from h have "rkvs \<noteq> []" by auto
    with h show ?thesis
      by (simp add: sync_deltas_update_lower_body sync_deltas_log_workspace_state
          update_lower_body_state quest_ts_dict)
  qed
  from up_some low_some up_none low_none absent refused number example
  show ?thesis by blast
qed

theorem C3_sync_delta_when_both_truthy_witness:
  "raised (handle_quest_packet float_sample
      \<lparr>latest_upper_body = PNone,
       latest_lower_body = Some \<lparr>timestamp = 10.25, landmarks = []\<rparr>,
       mp_frame_idx = Some 1\<rparr>
      (PDict [(''timestamp'', PFloat 10.0)]) (''10.0.0.7'', 9000)) = None
   \<and> sync_deltas (logs (handle_quest_packet float_sample
      \<lparr>latest_upper_body = PNone,
       latest_lower_body = Some \<lparr>timestamp = 10.25, landmarks = []\<rparr>,
       mp_frame_idx = Some 1\<rparr>
      (PDict [(''timestamp'', PFloat 10.0)]) (''10.0.0.7'', 9000))) = [0.25]
   \<and> sync_deltas (logs (update_lower_body float_sample
      \<lparr>latest_upper_body = PDict [(''timestamp'', PFloat 10.0)],
       latest_lower_body = None, mp_frame_idx = None\<rparr>
      \<lparr>timestamp = 10.25, landmarks = []\<rparr>)) = [0.25]
   \<and> sync_deltas (logs (update_lower_body float_sample
      \<lparr>latest_upper_body = PNone, latest_lower_body = None, mp_frame_idx = None\<rparr>
      \<lparr>timestamp = 10.25, landmarks = []\<rparr>)) = []
   \<and> sync_deltas (logs (handle_quest_packet float_sample
      \<lparr>latest_upper_body = PNone, latest_lower_body = None, mp_frame_idx = None\<rparr>
      (PDict [(''timestamp'', PFloat 10.0)]) (''10.0.0.7'', 9000))) = []
   \<and> quest_ts float_sample (PDict [(''joints'', PList [])]) = 0
   \<and> quest_ts float_sample (PDict [(''timestamp'', PNone)]) = 0
   \<and> quest_ts float_sample (PDict [(''timestamp'', PFloat 10.0)]) = 10.0"
proof -
  let ?up = "handle_quest_packet float_sample
      \<lparr>latest_upper_body = PNone,
       latest_lower_body = Some \<lparr>timestamp = 10.25, landmarks = []\<rparr>,
       mp_frame_idx = Some 1\<rparr>
      (PDict [(''timestamp'', PFloat 10.0)]) (''10.0.0.7'', 9000)"
  have completes: "raised ?up = None"
    by (simp add: handle_quest_packet_def py_or_def Let_def)
  have st: "state ?up = \<lparr>latest_upper_body = PDict [(''timestamp'', PFloat 10.0)],
       latest_lower_body = Some \<lparr>timestamp = 10.25, landmarks = []\<rparr>,
       mp_frame_idx = Some 1\<rparr>"
    by (simp add: handle_quest_packet_state)
  note t = C3_sync_delta_when_both_truthy [where fl = float_sample and rfl = float_sample
      and self = "\<lparr>latest_upper_body = PNone,
       latest_lower_body = Some \<lparr>timestamp = 10.25, landmarks = []\<rparr>,
       mp_frame_idx = Some 1\<rparr>"
      and packet = "PDict [(''timestamp'', PFloat 10.0)]" and a = "(''10.0.0.7'', 9000)"
      and lower = "\<lparr>timestamp = 10.25, landmarks = []\<rparr>"
      and snapshot = "\<lparr>timestamp = 10.25, landmarks = []\<rparr>"
      and kvs = "[(''timestamp'', PFloat 10.0)]" and x = "10.0" and v = PNone and e = TypeError
      and rself = "\<lparr>latest_upper_body = PDict [(''timestamp'', PFloat 10.0)],
       latest_lower_body = None, mp_frame_idx = None\<rparr>"
      and rkvs = "[(''timestamp'', PFloat 10.0)]" and lms = "[]"]
  have d1: "sync_deltas (logs ?up) = [0.25]"
    using t completes st by (simp add: quest_ts_dict)
  have d2: "sync_deltas (logs (update_lower_body float_sample
      \<lparr>latest_upper_body = PDict [(''timestamp'', PFloat 10.0)],
       latest_lower_body = None, mp_frame_idx = None\<rparr>
      \<lparr>timestamp = 10.25, landmarks = []\<rparr>)) = [0.25]"
    using t by simp
  note u = C3_sync_delta_when_both_truthy [where fl = float_sample
      and self = "\<lparr>latest_upper_body = PNone, latest_lower_body = None, mp_frame_idx = None\<rparr>"
      and snapshot = "\<lparr>timestamp = 10.25, landmarks = []\<rparr>"
      and packet = "PDict [(''timestamp'', PFloat 10.0)]" and a = "(''10.0.0.7'', 9000)"
      and kvs = "[(''joints'', PList [])]"]
  have d3: "sync_deltas (logs (update_lower_body float_sample
      \<lparr>latest_upper_body = PNone, latest_lower_body = None, mp_frame_idx = None\<rparr>
      \<lparr>timestamp = 10.25, landmarks = []\<rparr>)) = []"
    using u by (simp add: update_lower_body_state)
  have d4: "sync_deltas (logs (handle_quest_packet float_sample
      \<lparr>latest_upper_body = PNone, latest_lower_body = None, mp_frame_idx = None\<rparr>
      (PDict [(''timestamp'', PFloat 10.0)]) (''10.0.0.7'', 9000))) = []"
    using u by (simp add: handle_quest_packet_state)
  have q1: "quest_ts float_sample (PDict [(''joints'', PList [])]) = 0"
    using u by simp
  have q2: "quest_ts float_sample (PDict [(''timestamp'', PNone)]) = 0"
    using C3_sync_delta_when_both_truthy [where fl = float_sample
      and kvs = "[(''timestamp'', PNone)]" and v = PNone and e = TypeError]
    by simp
  have q3: "quest_ts float_sample (PDict [(''timestamp'', PFloat 10.0)]) = 10.0"
    using t by simp
  from completes d1 d2 d3 d4 q1 q2 q3 show ?thesis by simp
qed

text \<open>
  Claim C10. The upper-body timestamp of a stored mapping is coerced by \<^verbatim>\<open>float\<close>,
  not type-checked: it is \<^verbatim>\<open>float(v)\<close> whenever the key holds a value \<open>v\<close> that
  \<^verbatim>\<open>float\<close> accepts, and 0.0 only when the key is absent or \<^verbatim>\<open>float(v)\<close> raises.
  With a lower-body snapshot present the logged delta is the snapshot's timestamp minus
  that coerced value. Booleans are accepted (as 1.0 and 0.0), and so is every text the
  runtime's parser accepts.
\<close>

theorem C10_timestamp_coerced:
  fixes fl :: "('f::{zero,one,minus}) float_builtin"
  shows
   "quest_ts fl (PDict kvs) =
      (case map_of kvs ''timestamp'' of
         None \<Rightarrow> 0
       | Some v \<Rightarrow> (case py_float fl v of Inl e \<Rightarrow> 0 | Inr x \<Rightarrow> x))
    \<and> (latest_upper_body self = PDict kvs \<and> latest_lower_body self = Some lower
         \<and> map_of kvs ''timestamp'' = Some v \<and> py_float fl v = Inr x \<longrightarrow>
         log_workspace_state fl self = [FusionReadyInfo x (timestamp lower) (timestamp lower - x)])
    \<and> py_float fl (PBool True) = Inr 1
    \<and> py_float fl (PBool False) = Inr 0
    \<and> (of_pystr fl s = Some y \<longrightarrow> py_float fl (PStr s) = Inr y)"
proof -
  have emitted: "log_workspace_state fl self =
      [FusionReadyInfo x (timestamp lower) (timestamp lower - x)]"
    if h: "latest_upper_body self = PDict kvs \<and> latest_lower_body self = Some lower
         \<and> map_of kvs ''timestamp'' = Some v \<and> py_float fl v = Inr x"
  proof -
    from h have "kvs \<noteq> []" by auto
    with h show ?thesis by (simp add: quest_ts_dict log_workspace_state_def Let_def)
  qed
  then show ?thesis by (simp add: quest_ts_dict)
qed

theorem C10_timestamp_coerced_witness:
  "py_float float_sample (PStr [49, 48, 46, 53]) = Inr 10.5
   \<and> log_workspace_state float_sample
       \<lparr>latest_upper_body = PDict [(''timestamp'', PStr [49, 48, 46, 53])],
        latest_lower_body = Some \<lparr>timestamp = 10.25, landmarks = []\<rparr>,
        mp_frame_idx = Some 1\<rparr>
     = [FusionReadyInfo 10.5 10.25 (- 0.25)]
   \<and> log_workspace_state float_sample
       \<lparr>latest_upper_body = PDict [(''timestamp'', PBool True)],
        latest_lower_body = Some \<lparr>timestamp = 10.25, landmarks = []\<rparr>,
        mp_frame_idx = Some 1\<rparr>
     = [FusionReadyInfo 1 10.25 9.25]"
proof -
  have s: "py_float float_sample (PStr [49, 48, 46, 53]) = Inr 10.5"
    by (simp add: float_sample_def)
  have a: "log_workspace_state float_sample
       \<lparr>latest_upper_body = PDict [(''timestamp'', PStr [49, 48, 46, 53])],
        latest_lower_body = Some \<lparr>timestamp = 10.25, landmarks = []\<rparr>,
        mp_frame_idx = Some 1\<rparr>
     = [FusionReadyInfo 10.5 10.25 (- 0.25)]"
    using s C10_timestamp_coerced [where fl = float_sample
        and kvs = "[(''timestamp'', PStr [49, 48, 46, 53])]"
        and self = "\<lparr>latest_upper_body = PDict [(''timestamp'', PStr [49, 48, 46, 53])],
          latest_lower_body = Some \<lparr>timestamp = 10.25, landmarks = []\<rparr>,
          mp_frame_idx = Some 1\<rparr>"
        and lower = "\<lparr>timestamp = 10.25, landmarks = []\<rparr>"
        and v = "PStr [49, 48, 46, 53]" and x = "10.5"]
    by simp
  have b: "log_workspace_state float_sample
       \<lparr>latest_upper_body = PDict [(''timestamp'', PBool True)],
        latest_lower_body = Some \<lparr>timestamp = 10.25, landmarks = []\<rparr>,
        mp_frame_idx = Some 1\<rparr>
     = [FusionReadyInfo 1 10.25 9.25]"
    using C10_timestamp_coerced [where fl = float_sample
        and kvs = "[(''timestamp'', PBool True)]"
        and self = "\<lparr>latest_upper_body = PDict [(''timestamp'', PBool True)],
          latest_lower_body = Some \<lparr>timestamp = 10.25, landmarks = []\<rparr>,
          mp_frame_idx = Some 1\<rparr>"
        and lower = "\<lparr>timestamp = 10.25, landmarks = []\<rparr>"
        and v = "PBool True" and x = 1]
    by simp
  from s a b show ?thesis by blast
qed

section \<open>The call counter and the throttled diagnostic\<close>

text \<open>
  Claim C4. The call counter is 0 before the first call; N calls of
  \<^verbatim>\<open>update_lower_body\<close> raise it by exactly N from any state, and no call lowers it.
  A call emits the landmark diagnostic exactly when the counter after its increment is a
  multiple of 60; so on a fresh workspace the call number k + 1 emits it exactly when 60
  divides k + 1.
\<close>

theorem C4_counter_and_throttle:
  fixes fl :: "('f::{zero,one,minus}) float_builtin"
  shows
  "counter (FusionWorkspace_init :: 'f FusionWorkspace) = 0
   \<and> counter (run_calls fl self (map UpdateLower snaps)) = counter self + int (length snaps)
   \<and> counter self \<le> counter (state (update_lower_body fl self snapshot))
   \<and> emits_landmark_diag (logs (update_lower_body fl self snapshot))
       = (counter (state (update_lower_body fl self snapshot)) mod 60 = 0)
   \<and> (k < length snaps \<longrightarrow>
        emits_landmark_diag
          (logs (update_lower_body fl
             (run_calls fl FusionWorkspace_init (map UpdateLower (take k snaps))) (snaps ! k)))
        = (60 dvd Suc k))"
proof -
  have init: "counter (FusionWorkspace_init :: 'f FusionWorkspace) = 0"
    by (simp add: counter_def FusionWorkspace_init_def)
  have run: "counter (run_calls fl w (map UpdateLower xs)) = counter w + int (length xs)" for w xs
    by (simp add: run_calls_def counter_run_lower)
  have mono: "counter self \<le> counter (state (update_lower_body fl self snapshot))"
    by (simp add: counter_apply_lower)
  have post: "emits_landmark_diag (logs (update_lower_body fl self snapshot))
       = (counter (state (update_lower_body fl self snapshot)) mod 60 = 0)"
    by (simp add: emits_landmark_diag_update_lower_body counter_apply_lower)
  have kth: "emits_landmark_diag
          (logs (update_lower_body fl
             (run_calls fl FusionWorkspace_init (map UpdateLower (take k snaps))) (snaps ! k)))
        = (60 dvd Suc k)" if "k < length snaps"
  proof -
    from that have "counter (run_calls fl (FusionWorkspace_init :: 'f FusionWorkspace)
        (map UpdateLower (take k snaps))) = int k"
      by (simp add: run init)
    moreover have "((int k + 1) mod 60 = 0) = (60 dvd Suc k)"
      by presburger
    ultimately show ?thesis
      by (simp add: emits_landmark_diag_update_lower_body)
  qed
  from init run mono post kth show ?thesis by blast
qed

theorem C4_counter_and_throttle_witness:
  "counter (run_calls float_sample FusionWorkspace_init
      (map UpdateLower (replicate 60 \<lparr>timestamp = 10.25, landmarks = []\<rparr>))) = 60
   \<and> emits_landmark_diag
        (logs (update_lower_body float_sample
           (run_calls float_sample FusionWorkspace_init
              (map UpdateLower (take 59 (replicate 60 \<lparr>timestamp = 10.25, landmarks = []\<rparr>))))
           (replicate 60 \<lparr>timestamp = 10.25, landmarks = []\<rparr> ! 59)))
   \<and> \<not> emits_landmark_diag
        (logs (update_lower_body float_sample
           (run_calls float_sample FusionWorkspace_init
              (map UpdateLower (take 58 (replicate 60 \<lparr>timestamp = 10.25, landmarks = []\<rparr>))))
           (replicate 60 \<lparr>timestamp = 10.25, landmarks = []\<rparr> ! 58)))"
proof -
  let ?snaps = "replicate 60 \<lparr>timestamp = 10.25 :: real, landmarks = []\<rparr>"
  have len: "length ?snaps = 60" by simp
  have c: "counter (run_calls float_sample FusionWorkspace_init (map UpdateLower ?snaps)) = 60"
    using C4_counter_and_throttle [of float_sample FusionWorkspace_init ?snaps] by simp
  have k59: "emits_landmark_diag
        (logs (update_lower_body float_sample
           (run_calls float_sample FusionWorkspace_init (map UpdateLower (take 59 ?snaps)))
           (?snaps ! 59)))"
    using C4_counter_and_throttle [of float_sample FusionWorkspace_init ?snaps _ 59] len by simp
  have k58: "\<not> emits_landmark_diag
        (logs (update_lower_body float_sample
           (run_calls float_sample FusionWorkspace_init (map UpdateLower (take 58 ?snaps)))
           (?snaps ! 58)))"
    using C4_counter_and_throttle [of float_sample FusionWorkspace_init ?snaps _ 58] len by simp
  from c k59 k58 show ?thesis by blast
qed

end
